theory Spec2Isabelle
  imports Main
begin

section \<open>The WhatsApp verification bot of src/index.js\<close>

text \<open>
  The bot keeps three maps (\<open>verificationCodes\<close>, \<open>verifiedUsers\<close>, \<open>pendingTickets\<close>),
  and handles each inbound message with \<open>handleMessage\<close>, which dispatches to
  \<open>handleVerifiedUser\<close>, \<open>handleVerificationCode\<close> or \<open>handleUsernameSubmission\<close>.

  The embedding passes the three maps explicitly as a record and returns them updated.
  Everything a handler reads from outside the process (the answers of the backend API,
  the random draw, the clock) is an argument, the record \<open>env\<close>. A handler's only output
  is the text it passes to \<open>client.sendText(phone, ...)\<close>; it is returned as a value of
  the datatype \<open>reply\<close>, one constructor for each message template of the source.
  The transport is taken to deliver: a rejected \<open>sendText\<close> is not modelled, so the
  catch-all of \<open>startBot\<close> never fires.

  \<open>handleMessage\<close> and the three handlers are first given as functions from the stores
  before to the stores after: a handler that no other handler interrupts, all its
  remote calls answered by one environment. The handlers are \<open>async\<close>, though, and the
  source does not make one wait for another; the last part of the model cuts each handler
  at its \<open>await\<close>s and lets the pieces of different handlers alternate.
\<close>

subsection \<open>JavaScript values and strings\<close>

text \<open>
  Values that come out of a JSON payload and are used without a type check: the ticket id,
  the error codes, the fields of an order. \<open>JObj\<close> stands for any object or array.
  Numbers are the integers.
\<close>

datatype jsval = JUndefined | JNull | JBool bool | JNum int | JStr string | JObj

text \<open>Truthiness, as \<open>if (ticketId)\<close>, \<open>!orderId\<close> and \<open>order.link || 'N/A'\<close> test it.\<close>

fun truthy :: "jsval \<Rightarrow> bool" where
  "truthy JUndefined = False"
| "truthy JNull = False"
| "truthy (JBool b) = b"
| "truthy (JNum n) = (n \<noteq> 0)"
| "truthy (JStr s) = (s \<noteq> [])"
| "truthy JObj = True"

text \<open>
  A text is a list of characters, one for each UTF-16 code unit; the characters of the
  model are the code units below 256. Of the characters \<open>String.prototype.trim\<close> removes
  (white space and line terminators) these are tab, line feed, vertical tab, form feed,
  carriage return, space and the no-break space.
\<close>

definition is_ws :: "char \<Rightarrow> bool" where
  "is_ws c = (c \<in> set [CHR 0x09, CHR 0x0A, CHR 0x0B, CHR 0x0C, CHR 0x0D, CHR 0x20, CHR 0xA0])"

definition trim :: "string \<Rightarrow> string" where
  "trim s = rev (dropWhile is_ws (rev (dropWhile is_ws s)))"

text \<open>The regular expression \<open>/^\d+$/\<close>: one or more characters, each of \<open>0\<close> to \<open>9\<close>.\<close>

definition is_digit :: "char \<Rightarrow> bool" where
  "is_digit c = (c \<in> set ''0123456789'')"

definition all_digits :: "string \<Rightarrow> bool" where
  "all_digits s = (s \<noteq> [] \<and> list_all is_digit s)"

text \<open>
  \<open>toLowerCase\<close> on code units below 256: the letters \<open>A\<close> to \<open>Z\<close> and the accented
  capitals \<open>0xC0\<close> to \<open>0xDE\<close> (the multiplication sign \<open>0xD7\<close> apart) move up by 32.
\<close>

definition lower_char :: "char \<Rightarrow> char" where
  "lower_char c =
     (let n = (of_char c :: nat)
      in if (65 \<le> n \<and> n \<le> 90) \<or> (192 \<le> n \<and> n \<le> 222 \<and> n \<noteq> 215)
         then char_of (n + 32) else c)"

definition toLowerCase :: "string \<Rightarrow> string" where
  "toLowerCase s = map lower_char s"

definition startsWith :: "string \<Rightarrow> string \<Rightarrow> bool" where
  "startsWith s p = (take (length p) s = p)"

text \<open>\<open>s.split(c)\<close> for a one-character separator: never the empty array.\<close>

fun split :: "char \<Rightarrow> string \<Rightarrow> string list" where
  "split c [] = [[]]"
| "split c (x # xs) =
     (if x = c then [] # split c xs
      else (case split c xs of
              [] \<Rightarrow> [[x]]
            | w # ws \<Rightarrow> (x # w) # ws))"

text \<open>\<open>Number.prototype.toString\<close> on a non-negative integer: its decimal digits.\<close>

definition digit_char :: "nat \<Rightarrow> char" where
  "digit_char d = ''0123456789'' ! d"

fun toString :: "nat \<Rightarrow> string" where
  "toString n = (if n < 10 then [digit_char n] else toString (n div 10) @ [digit_char (n mod 10)])"

text \<open>
  \<open>crypto.randomInt(min, max)\<close> of Node.js returns an integer \<open>n\<close> with
  \<open>min \<le> n < max\<close>: the upper bound is exclusive. From the raw random number \<open>x\<close>
  it has drawn it computes \<open>x % (max - min) + min\<close>.
\<close>

definition randomInt :: "nat \<Rightarrow> nat \<Rightarrow> nat \<Rightarrow> nat" where
  "randomInt lo hi x = x mod (hi - lo) + lo"

text \<open>The decimal value of a digit string, to read a generated code back.\<close>

definition digit_val :: "char \<Rightarrow> nat" where
  "digit_val c = of_char c - 48"

definition decimal :: "string \<Rightarrow> nat" where
  "decimal s = foldl (\<lambda>a c. 10 * a + digit_val c) 0 s"

subsection \<open>The data stores\<close>

type_synonym phone = string

text \<open>The value stored in \<open>verificationCodes\<close>: \<open>{code, username, timestamp}\<close>.\<close>

record pending =
  code :: string
  username :: string
  timestamp :: int

record state =
  verificationCodes :: "phone \<rightharpoonup> pending"
  verifiedUsers :: "phone \<rightharpoonup> string"
  pendingTickets :: "string \<rightharpoonup> jsval"

definition init_state :: state where
  "init_state = \<lparr>verificationCodes = Map.empty, verifiedUsers = Map.empty,
                 pendingTickets = Map.empty\<rparr>"

subsection \<open>The outside world\<close>

text \<open>
  What a \<open>try\<close> block can throw: a rejected HTTP request, a property read on a missing
  part of the payload, and the \<open>new Error(error_message)\<close> of a non-zero error code.
\<close>

datatype error = RequestError | TypeError | ApiError jsval

text \<open>An element of \<open>response.data.data.list\<close> of \<open>GET /users\<close>.\<close>

record user =
  user_username :: string
  user_email :: string

text \<open>
  The body of the answer to \<open>POST /tickets/add\<close>: \<open>t_data\<close> is \<open>data.ticket_id\<close>, or
  \<open>None\<close> when \<open>data\<close> is missing, so that reading \<open>ticket_id\<close> throws.
\<close>

record ticket_response =
  t_error_code :: jsval
  t_error_message :: jsval
  t_data :: "jsval option"

record order =
  order_id :: jsval
  service_name :: jsval
  order_status :: jsval
  quantity :: jsval
  remains :: jsval
  created :: jsval
  link :: jsval

record order_response =
  o_error_code :: jsval
  o_error_message :: jsval
  o_data :: "order option"

text \<open>
  The environment of one message: the outcome of each remote call the handler may make
  (\<open>Inl\<close> when the call, or reading the list out of its payload, throws), the raw random
  number and the value of \<open>Date.now()\<close>.
\<close>

record env =
  users_get :: "error + user list"
  tickets_add :: "string \<Rightarrow> error + ticket_response"
  tickets_update :: "jsval \<Rightarrow> error + unit"
  orders_get :: "string \<Rightarrow> error + order_response"
  random_draw :: nat
  Date_now :: int

text \<open>An inbound message: \<open>message.from\<close>, \<open>message.body\<close> (which may be absent) and
  \<open>message.isGroupMsg\<close>.\<close>

record message =
  msg_from :: phone
  msg_body :: "string option"
  isGroupMsg :: bool

text \<open>
  The texts sent, by template:
  \<^item> \<open>UsernameNotFound\<close>: "Username/email not found in our system. ..."
  \<^item> \<open>CodeSent u c\<close>: "Verification code for u: c This code will expire in 10 minutes. ..."
  \<^item> \<open>CouldNotInitiate\<close>: "Could not initiate verification. Please try again later or
    contact support."
  \<^item> \<open>NoActiveRequest\<close>: "No active verification request found. Please start over by
    sending your username."
  \<^item> \<open>CodeExpired\<close>: "Verification code expired. Please start over by sending your username."
  \<^item> \<open>InvalidCode\<close>: "Invalid verification code. Please try again."
  \<^item> \<open>VerificationSuccessful u\<close>: "Verification successful! Welcome u! ..."
  \<^item> \<open>CouldNotComplete\<close>: "Could not complete verification. Please try again later or
    contact support."
  \<^item> \<open>Help u\<close>: "u's Account Help: ..."
  \<^item> \<open>OrderUsage\<close>: "Please provide an order ID. Example: /order 12345"
  \<^item> \<open>OrderStatus id service status quantity remaining created link\<close>: the status card
  \<^item> \<open>OrderFailed\<close>: "Could not fetch order details. Please check the order ID and try again."
  \<^item> \<open>Hello u\<close>: "Hello u! Send /order [id] to check order status Or /help for more options"
\<close>

datatype reply =
    UsernameNotFound
  | CodeSent string string
  | CouldNotInitiate
  | NoActiveRequest
  | CodeExpired
  | InvalidCode
  | VerificationSuccessful string
  | CouldNotComplete
  | Help jsval
  | OrderUsage
  | OrderStatus jsval jsval jsval jsval jsval jsval jsval
  | OrderFailed
  | Hello jsval

subsection \<open>handleUsernameSubmission\<close>

text \<open>\<open>crypto.randomInt(100000, 999999).toString()\<close>.\<close>

definition verificationCode :: "nat \<Rightarrow> string" where
  "verificationCode x = toString (randomInt 100000 999999 x)"

text \<open>
  The \<open>try\<close> block. It returns the stores as they are when it ends, with the reply it
  sends or the exception it throws: what was written before a throw stays written.
\<close>

definition usernameSubmission_try :: "env \<Rightarrow> state \<Rightarrow> phone \<Rightarrow> string \<Rightarrow> state \<times> (error + reply)" where
  "usernameSubmission_try e st phone uname =
     (case users_get e of
        Inl err \<Rightarrow> (st, Inl err)
      | Inr lst \<Rightarrow>
          (case find (\<lambda>u. user_username u = uname \<or> user_email u = uname) lst of
             None \<Rightarrow> (st, Inr UsernameNotFound)
           | Some usr \<Rightarrow>
               (case tickets_add e (user_username usr) of
                  Inl err \<Rightarrow> (st, Inl err)
                | Inr resp \<Rightarrow>
                    if t_error_code resp \<noteq> JNum 0 then (st, Inl (ApiError (t_error_message resp)))
                    else (case t_data resp of
                            None \<Rightarrow> (st, Inl TypeError)
                          | Some ticketId \<Rightarrow>
                              (let st1 = st\<lparr>pendingTickets :=
                                            (pendingTickets st)(user_username usr \<mapsto> ticketId)\<rparr>;
                                   vcode = verificationCode (random_draw e);
                                   st2 = st1\<lparr>verificationCodes :=
                                            (verificationCodes st1)(phone \<mapsto>
                                              \<lparr>code = vcode, username = user_username usr,
                                               timestamp = Date_now e\<rparr>)\<rparr>
                               in (st2, Inr (CodeSent (user_username usr) vcode)))))))"

definition handleUsernameSubmission :: "env \<Rightarrow> state \<Rightarrow> phone \<Rightarrow> string \<Rightarrow> state \<times> reply" where
  "handleUsernameSubmission e st phone uname =
     (case usernameSubmission_try e st phone uname of
        (st', Inr r) \<Rightarrow> (st', r)
      | (st', Inl err) \<Rightarrow> (st', CouldNotInitiate))"

subsection \<open>handleVerificationCode\<close>

definition verificationCode_try :: "env \<Rightarrow> state \<Rightarrow> phone \<Rightarrow> string \<Rightarrow> state \<times> (error + reply)" where
  "verificationCode_try e st phone c =
     (case verificationCodes st phone of
        None \<Rightarrow> (st, Inr NoActiveRequest)
      | Some storedData \<Rightarrow>
          if Date_now e - timestamp storedData > 600000
          then (st\<lparr>verificationCodes := (verificationCodes st)(phone := None)\<rparr>, Inr CodeExpired)
          else if c \<noteq> code storedData then (st, Inr InvalidCode)
          else
            (let st1 = st\<lparr>verifiedUsers := (verifiedUsers st)(phone \<mapsto> username storedData)\<rparr>;
                 st2 = st1\<lparr>verificationCodes := (verificationCodes st1)(phone := None)\<rparr>;
                 ticketId = (case pendingTickets st2 (username storedData) of
                               None \<Rightarrow> JUndefined | Some t \<Rightarrow> t)
             in if truthy ticketId
                then (case tickets_update e ticketId of
                        Inl err \<Rightarrow> (st2, Inl err)
                      | Inr _ \<Rightarrow>
                          (st2\<lparr>pendingTickets := (pendingTickets st2)(username storedData := None)\<rparr>,
                           Inr (VerificationSuccessful (username storedData))))
                else (st2, Inr (VerificationSuccessful (username storedData)))))"

definition handleVerificationCode :: "env \<Rightarrow> state \<Rightarrow> phone \<Rightarrow> string \<Rightarrow> state \<times> reply" where
  "handleVerificationCode e st phone c =
     (case verificationCode_try e st phone c of
        (st', Inr r) \<Rightarrow> (st', r)
      | (st', Inl err) \<Rightarrow> (st', CouldNotComplete))"

subsection \<open>handleVerifiedUser\<close>

text \<open>The inner \<open>try\<close> block of the order command; it writes to no store.\<close>

definition order_try :: "env \<Rightarrow> string \<Rightarrow> error + reply" where
  "order_try e orderId =
     (case orders_get e orderId of
        Inl err \<Rightarrow> Inl err
      | Inr resp \<Rightarrow>
          if o_error_code resp \<noteq> JNum 0 then Inl (ApiError (o_error_message resp))
          else (case o_data resp of
                  None \<Rightarrow> Inl TypeError
                | Some ord \<Rightarrow>
                    Inr (OrderStatus (order_id ord) (service_name ord) (order_status ord)
                           (quantity ord) (remains ord) (created ord)
                           (if truthy (link ord) then link ord else JStr ''N/A''))))"

definition handleVerifiedUser :: "env \<Rightarrow> state \<Rightarrow> phone \<Rightarrow> string \<Rightarrow> state \<times> reply" where
  "handleVerifiedUser e st phone msg =
     (let uname = (case verifiedUsers st phone of None \<Rightarrow> JUndefined | Some u \<Rightarrow> JStr u)
      in if toLowerCase msg = ''/help'' then (st, Help uname)
         else if startsWith (toLowerCase msg) ''/order ''
         then (case split CHR '' '' msg of
                 _ # orderId # _ \<Rightarrow>
                   if orderId = [] then (st, OrderUsage)
                   else (case order_try e orderId of
                           Inr r \<Rightarrow> (st, r)
                         | Inl err \<Rightarrow> (st, OrderFailed))
               | _ \<Rightarrow> (st, OrderUsage))
         else (st, Hello uname))"

subsection \<open>handleMessage\<close>

definition sent :: "state \<times> reply \<Rightarrow> state \<times> reply option" where
  "sent r = (fst r, Some (snd r))"

definition handleMessage :: "env \<Rightarrow> state \<Rightarrow> message \<Rightarrow> state \<times> reply option" where
  "handleMessage e st m =
     (let phone = msg_from m;
          msg = trim (case msg_body m of None \<Rightarrow> [] | Some b \<Rightarrow> b)
      in if verifiedUsers st phone \<noteq> None then sent (handleVerifiedUser e st phone msg)
         else if verificationCodes st phone \<noteq> None \<and> length msg = 6 \<and> all_digits msg
         then sent (handleVerificationCode e st phone msg)
         else if length msg > 0 then sent (handleUsernameSubmission e st phone msg)
         else (st, None))"

text \<open>The callback of \<open>client.onMessage\<close>: group messages are dropped.\<close>

definition onMessage :: "env \<Rightarrow> state \<Rightarrow> message \<Rightarrow> state \<times> reply option" where
  "onMessage e st m = (if \<not> isGroupMsg m then handleMessage e st m else (st, None))"

subsection \<open>Handlers that interleave\<close>

text \<open>
  The callback registered with \<open>client.onMessage\<close> is \<open>async\<close>, and nothing makes
  the handler of a message wait for the handler of the message before it. A handler runs
  until it awaits a remote call (\<open>GET /users\<close>, \<open>POST /tickets/add\<close>,
  \<open>POST /tickets/update\<close>, \<open>GET /orders/id\<close>); the handlers of other messages may
  run before it resumes, and all of them read and write the same three maps. A suspended
  handler is a \<open>task\<close>: the call it waits for and the local variables it uses afterwards
  (\<open>phone\<close> and \<open>username\<close>; \<open>phone\<close> and \<open>user\<close>; \<open>phone\<close>, \<open>storedData\<close> and
  \<open>ticketId\<close>; \<open>phone\<close> and \<open>orderId\<close>).
\<close>

datatype task =
    AwaitUsers phone string
  | AwaitTicketAdd phone user
  | AwaitTicketUpdate phone pending jsval
  | AwaitOrder phone string

datatype outcome = Suspended task | Done "reply option"

fun task_phone :: "task \<Rightarrow> phone" where
  "task_phone (AwaitUsers p u) = p"
| "task_phone (AwaitTicketAdd p usr) = p"
| "task_phone (AwaitTicketUpdate p sd t) = p"
| "task_phone (AwaitOrder p i) = p"

text \<open>
  Each handler from its first line to the first \<open>await\<close> it meets, or to its end.
  \<open>handleVerifiedUser\<close> ends there unless it fetches an order;
  \<open>handleVerificationCode\<close> does all its checks and writes \<open>verifiedUsers\<close> and
  \<open>verificationCodes\<close> before it awaits the ticket update (\<open>Date.now()\<close> is read
  here); \<open>handleUsernameSubmission\<close> awaits \<open>GET /users\<close> at once.
\<close>

definition handleVerifiedUser_start :: "state \<Rightarrow> phone \<Rightarrow> string \<Rightarrow> state \<times> outcome" where
  "handleVerifiedUser_start st phone msg =
     (let uname = (case verifiedUsers st phone of None \<Rightarrow> JUndefined | Some u \<Rightarrow> JStr u)
      in if toLowerCase msg = ''/help'' then (st, Done (Some (Help uname)))
         else if startsWith (toLowerCase msg) ''/order ''
         then (case split CHR '' '' msg of
                 _ # orderId # _ \<Rightarrow>
                   if orderId = [] then (st, Done (Some OrderUsage))
                   else (st, Suspended (AwaitOrder phone orderId))
               | _ \<Rightarrow> (st, Done (Some OrderUsage)))
         else (st, Done (Some (Hello uname))))"

definition handleVerificationCode_start :: "env \<Rightarrow> state \<Rightarrow> phone \<Rightarrow> string \<Rightarrow> state \<times> outcome" where
  "handleVerificationCode_start e st phone c =
     (case verificationCodes st phone of
        None \<Rightarrow> (st, Done (Some NoActiveRequest))
      | Some storedData \<Rightarrow>
          if Date_now e - timestamp storedData > 600000
          then (st\<lparr>verificationCodes := (verificationCodes st)(phone := None)\<rparr>,
                Done (Some CodeExpired))
          else if c \<noteq> code storedData then (st, Done (Some InvalidCode))
          else
            (let st1 = st\<lparr>verifiedUsers := (verifiedUsers st)(phone \<mapsto> username storedData)\<rparr>;
                 st2 = st1\<lparr>verificationCodes := (verificationCodes st1)(phone := None)\<rparr>;
                 ticketId = (case pendingTickets st2 (username storedData) of
                               None \<Rightarrow> JUndefined | Some t \<Rightarrow> t)
             in if truthy ticketId
                then (st2, Suspended (AwaitTicketUpdate phone storedData ticketId))
                else (st2, Done (Some (VerificationSuccessful (username storedData))))))"

text \<open>\<open>handleMessage\<close> to the first \<open>await\<close>: the dispatch and the start of the handler.\<close>

definition start :: "env \<Rightarrow> state \<Rightarrow> message \<Rightarrow> state \<times> outcome" where
  "start e st m =
     (let phone = msg_from m;
          msg = trim (case msg_body m of None \<Rightarrow> [] | Some b \<Rightarrow> b)
      in if verifiedUsers st phone \<noteq> None then handleVerifiedUser_start st phone msg
         else if verificationCodes st phone \<noteq> None \<and> length msg = 6 \<and> all_digits msg
         then handleVerificationCode_start e st phone msg
         else if length msg > 0 then (st, Suspended (AwaitUsers phone msg))
         else (st, Done None))"

text \<open>
  A handler from the remote call it waited for, whose outcome is now in the environment,
  to its next \<open>await\<close> or to its end. The stores it reads and writes are the stores as
  they are when it resumes.
\<close>

fun resume :: "env \<Rightarrow> state \<Rightarrow> task \<Rightarrow> state \<times> outcome" where
  "resume e st (AwaitUsers phone uname) =
     (case users_get e of
        Inl err \<Rightarrow> (st, Done (Some CouldNotInitiate))
      | Inr lst \<Rightarrow>
          (case find (\<lambda>u. user_username u = uname \<or> user_email u = uname) lst of
             None \<Rightarrow> (st, Done (Some UsernameNotFound))
           | Some usr \<Rightarrow> (st, Suspended (AwaitTicketAdd phone usr))))"
| "resume e st (AwaitTicketAdd phone usr) =
     (case tickets_add e (user_username usr) of
        Inl err \<Rightarrow> (st, Done (Some CouldNotInitiate))
      | Inr resp \<Rightarrow>
          if t_error_code resp \<noteq> JNum 0 then (st, Done (Some CouldNotInitiate))
          else (case t_data resp of
                  None \<Rightarrow> (st, Done (Some CouldNotInitiate))
                | Some ticketId \<Rightarrow>
                    (let st1 = st\<lparr>pendingTickets :=
                                  (pendingTickets st)(user_username usr \<mapsto> ticketId)\<rparr>;
                         vcode = verificationCode (random_draw e);
                         st2 = st1\<lparr>verificationCodes :=
                                  (verificationCodes st1)(phone \<mapsto>
                                    \<lparr>code = vcode, username = user_username usr,
                                     timestamp = Date_now e\<rparr>)\<rparr>
                     in (st2, Done (Some (CodeSent (user_username usr) vcode))))))"
| "resume e st (AwaitTicketUpdate phone storedData ticketId) =
     (case tickets_update e ticketId of
        Inl err \<Rightarrow> (st, Done (Some CouldNotComplete))
      | Inr _ \<Rightarrow>
          (st\<lparr>pendingTickets := (pendingTickets st)(username storedData := None)\<rparr>,
           Done (Some (VerificationSuccessful (username storedData)))))"
| "resume e st (AwaitOrder phone orderId) =
     (case order_try e orderId of
        Inr r \<Rightarrow> (st, Done (Some r))
      | Inl err \<Rightarrow> (st, Done (Some OrderFailed)))"

text \<open>
  The bot between two events: the stores and the suspended handlers. An event is the
  arrival of a message (its handler starts, unless it is a group message) or the
  completion of the remote call of the \<open>i\<close>-th suspended handler (it resumes).
\<close>

type_synonym sys = "state \<times> task list"

datatype event = Arrive env message | Resume env nat

fun step :: "sys \<Rightarrow> event \<Rightarrow> sys" where
  "step (st, ts) (Arrive e m) =
     (if isGroupMsg m then (st, ts)
      else (case start e st m of
              (st', Suspended t) \<Rightarrow> (st', ts @ [t])
            | (st', Done r) \<Rightarrow> (st', ts)))"
| "step (st, ts) (Resume e i) =
     (if i < length ts
      then (case resume e st (ts ! i) of
              (st', Suspended t) \<Rightarrow> (st', ts[i := t])
            | (st', Done r) \<Rightarrow> (st', take i ts @ drop (Suc i) ts))
      else (st, ts))"

fun exec :: "sys \<Rightarrow> event list \<Rightarrow> sys" where
  "exec s [] = s"
| "exec s (ev # evs) = exec (step s ev) evs"

text \<open>
  A schedule in which the handlers of one phone do not interleave: a message of a phone
  arrives only when no handler of that phone is suspended.
\<close>

fun serial :: "sys \<Rightarrow> event list \<Rightarrow> bool" where
  "serial s [] = True"
| "serial s (Arrive e m # evs) =
     ((isGroupMsg m \<or> msg_from m \<notin> set (map task_phone (snd s)))
      \<and> serial (step s (Arrive e m)) evs)"
| "serial s (Resume e i # evs) = serial (step s (Resume e i)) evs"

text \<open>
  A handler that nothing interrupts: started and resumed, in the same environment, until
  it ends. A task is resumed at most twice.
\<close>

fun steps_left :: "outcome \<Rightarrow> nat" where
  "steps_left (Done r) = 0"
| "steps_left (Suspended (AwaitUsers p u)) = 2"
| "steps_left (Suspended t) = 1"

function finish :: "env \<Rightarrow> state \<times> outcome \<Rightarrow> state \<times> reply option" where
  "finish e (st, Done r) = (st, r)"
| "finish e (st, Suspended t) = finish e (resume e st t)"
  by pat_completeness auto
termination
proof (relation "measure (\<lambda>(e, s). steps_left (snd s))")
  show "wf (measure (\<lambda>(e, s). steps_left (snd s)))" by simp
next
  fix e :: env and st :: state and t :: task
  have "steps_left (snd (resume e st t)) < steps_left (Suspended t)"
    by (cases t) (auto split: sum.splits option.splits if_splits simp: Let_def)
  then show "((e, resume e st t), (e, st, Suspended t))
              \<in> measure (\<lambda>(e, s). steps_left (snd s))" by simp
qed



subsection \<open>A scenario\<close>

text \<open>
  The backend knows one user, \<open>alice\<close>, opens ticket \<open>T1\<close> for her and resolves it; the
  random draw 382913 gives the code 482913. Phone \<open>p1\<close> sends her name at time 0
  (\<open>st_pending\<close>) and then the code (\<open>st_verified\<close>).
\<close>

definition alice :: user where
  "alice = \<lparr>user_username = ''alice'', user_email = ''alice@example.com''\<rparr>"

definition env0 :: env where
  "env0 = \<lparr>users_get = Inr [alice],
           tickets_add = (\<lambda>u. Inr \<lparr>t_error_code = JNum 0, t_error_message = JUndefined,
                                   t_data = Some (JStr ''T1'')\<rparr>),
           tickets_update = (\<lambda>t. Inr ()),
           orders_get = (\<lambda>i. Inl RequestError),
           random_draw = 382913,
           Date_now = 0\<rparr>"

definition text_from :: "phone \<Rightarrow> string \<Rightarrow> message" where
  "text_from p b = \<lparr>msg_from = p, msg_body = Some b, isGroupMsg = False\<rparr>"

definition st_pending :: state where
  "st_pending =
     \<lparr>verificationCodes = [''p1'' \<mapsto> \<lparr>code = ''482913'', username = ''alice'', timestamp = 0\<rparr>],
      verifiedUsers = Map.empty,
      pendingTickets = [''alice'' \<mapsto> JStr ''T1'']\<rparr>"

definition st_verified :: state where
  "st_verified = \<lparr>verificationCodes = Map.empty,
                  verifiedUsers = [''p1'' \<mapsto> ''alice''],
                  pendingTickets = Map.empty\<rparr>"

section \<open>Properties\<close>

lemmas scenario_defs =
  alice_def env0_def text_from_def st_pending_def st_verified_def init_state_def

lemmas eval_defs =
  handleMessage_def onMessage_def sent_def trim_def is_ws_def all_digits_def is_digit_def
  handleUsernameSubmission_def usernameSubmission_try_def handleVerificationCode_def
  verificationCode_try_def handleVerifiedUser_def order_try_def toLowerCase_def lower_char_def
  startsWith_def verificationCode_def randomInt_def digit_char_def Let_def

lemmas task_defs =
  start_def handleVerifiedUser_start_def handleVerificationCode_start_def trim_def is_ws_def
  all_digits_def is_digit_def order_try_def toLowerCase_def lower_char_def startsWith_def
  verificationCode_def randomInt_def digit_char_def Let_def

subsection \<open>The code generator\<close>

lemma digit_char_is_digit: "d < 10 \<Longrightarrow> is_digit (digit_char d)"
  unfolding is_digit_def digit_char_def by (rule nth_mem) simp

lemma digit_val_digit_char: "d < 10 \<Longrightarrow> digit_val (digit_char d) = d"
proof -
  assume "d < 10"
  then have "d \<in> {0, 1, 2, 3, 4, 5, 6, 7, 8, 9}" by auto
  then show ?thesis
    by (auto simp: digit_val_def digit_char_def)
qed

lemma digit_char_zero_iff: "d < 10 \<Longrightarrow> digit_char d = CHR ''0'' \<longleftrightarrow> d = 0"
proof -
  assume "d < 10"
  then have "d \<in> {0, 1, 2, 3, 4, 5, 6, 7, 8, 9}" by auto
  then show ?thesis
    by (auto simp: digit_char_def)
qed

lemma toString_small: "n < 10 \<Longrightarrow> toString n = [digit_char n]"
  by simp

lemma toString_large: "10 \<le> n \<Longrightarrow> toString n = toString (n div 10) @ [digit_char (n mod 10)]"
  by simp

lemma toString_not_Nil: "toString n \<noteq> []"
  by (cases "n < 10") (simp_all del: toString.simps add: toString_small toString_large)

lemma toString_digits: "list_all is_digit (toString n)"
proof (induction n rule: toString.induct)
  case (1 n)
  show ?case
  proof (cases "n < 10")
    case True
    then show ?thesis by (simp del: toString.simps add: toString_small digit_char_is_digit)
  next
    case False
    with 1 show ?thesis
      by (simp del: toString.simps add: toString_large digit_char_is_digit)
  qed
qed

lemma toString_length: "10 ^ k \<le> n \<Longrightarrow> n < 10 ^ Suc k \<Longrightarrow> length (toString n) = Suc k"
proof (induction k arbitrary: n)
  case 0
  then show ?case by (simp del: toString.simps add: toString_small)
next
  case (Suc k)
  from Suc.prems have big: "10 \<le> n"
    using order_trans [of 10 "10 ^ Suc k" n] by simp
  from Suc.prems have "10 ^ k \<le> n div 10" "n div 10 < 10 ^ Suc k"
    by (simp_all add: less_mult_imp_div_less mult.commute)
  then have "length (toString (n div 10)) = Suc k" by (rule Suc.IH)
  with big show ?case by (simp del: toString.simps add: toString_large)
qed

lemma toString_hd: "0 < n \<Longrightarrow> hd (toString n) \<noteq> CHR ''0''"
proof (induction n rule: toString.induct)
  case (1 n)
  show ?case
  proof (cases "n < 10")
    case True
    with 1 show ?thesis by (simp del: toString.simps add: toString_small digit_char_zero_iff)
  next
    case False
    then have "0 < n div 10" by (simp add: div_greater_zero_iff)
    with False 1 show ?thesis
      by (simp del: toString.simps add: toString_large toString_not_Nil)
  qed
qed

lemma decimal_snoc: "decimal (s @ [c]) = 10 * decimal s + digit_val c"
  by (simp add: decimal_def)

lemma decimal_toString: "decimal (toString n) = n"
proof (induction n rule: toString.induct)
  case (1 n)
  show ?case
  proof (cases "n < 10")
    case True
    then show ?thesis
      by (simp del: toString.simps add: toString_small decimal_def digit_val_digit_char)
  next
    case False
    with 1 show ?thesis
      by (simp del: toString.simps add: toString_large decimal_snoc digit_val_digit_char)
  qed
qed

lemma randomInt_code_range:
  "100000 \<le> randomInt 100000 999999 x \<and> randomInt 100000 999999 x \<le> 999998"
proof -
  have "x mod 899999 < 899999" by simp
  then show ?thesis by (simp add: randomInt_def)
qed

lemma verificationCode_six_digits:
  "length (verificationCode x) = 6 \<and> all_digits (verificationCode x)
   \<and> hd (verificationCode x) \<noteq> CHR ''0''"
proof -
  let ?n = "randomInt 100000 999999 x"
  from randomInt_code_range [of x] have "10 ^ 5 \<le> ?n" "?n < 10 ^ Suc 5" by simp_all
  then have "length (toString ?n) = Suc 5" by (rule toString_length)
  moreover have "0 < ?n" using randomInt_code_range [of x] by simp
  then have "hd (toString ?n) \<noteq> CHR ''0''" by (rule toString_hd)
  ultimately show ?thesis
    by (simp del: toString.simps add: verificationCode_def all_digits_def toString_digits toString_not_Nil)
qed

lemma verificationCode_reaches:
  "100000 \<le> n \<Longrightarrow> n \<le> 999998 \<Longrightarrow> verificationCode (n - 100000) = toString n"
  by (simp del: toString.simps add: verificationCode_def randomInt_def)

lemma verificationCode_max: "verificationCode 899998 = ''999998''"
  by (simp add: verificationCode_def randomInt_def digit_char_def)

text \<open>
  Claim C5. Every generated code is a string of six digits whose first digit is not zero
  (\<open>verificationCode_six_digits\<close> above). The claim also has the value range over
  100000 to 999999 inclusive, with 999999 produced by some draw. The upper bound of
  \<open>crypto.randomInt\<close> is exclusive, so the values are 100000 to 999998
  (\<open>randomInt_code_range\<close>, \<open>verificationCode_reaches\<close>, \<open>verificationCode_max\<close>), and
  no draw gives 999999:
\<close>

theorem verificationCode_never_999999: "verificationCode x \<noteq> ''999999''"
proof
  assume "verificationCode x = ''999999''"
  then have "decimal (toString (randomInt 100000 999999 x)) = decimal ''999999''"
    by (simp only: verificationCode_def)
  then have "randomInt 100000 999999 x = 999999"
    by (simp only: decimal_toString) (simp add: decimal_def digit_val_def)
  with randomInt_code_range [of x] show False by simp
qed

subsection \<open>Dispatch\<close>

lemma handleMessage_verified:
  "verifiedUsers st (msg_from m) = Some u \<Longrightarrow>
   handleMessage e st m =
     sent (handleVerifiedUser e st (msg_from m)
             (trim (case msg_body m of None \<Rightarrow> [] | Some b \<Rightarrow> b)))"
  by (simp add: handleMessage_def)

lemma handleMessage_code:
  "verifiedUsers st (msg_from m) = None \<Longrightarrow> verificationCodes st (msg_from m) = Some sd \<Longrightarrow>
   msg_body m = Some b \<Longrightarrow> length (trim b) = 6 \<Longrightarrow> all_digits (trim b) \<Longrightarrow>
   handleMessage e st m = sent (handleVerificationCode e st (msg_from m) (trim b))"
  by (simp add: handleMessage_def)

lemma handleMessage_username:
  "verifiedUsers st (msg_from m) = None \<Longrightarrow>
   verificationCodes st (msg_from m) = None \<or> \<not> (length (trim b) = 6 \<and> all_digits (trim b)) \<Longrightarrow>
   msg_body m = Some b \<Longrightarrow> trim b \<noteq> [] \<Longrightarrow>
   handleMessage e st m = sent (handleUsernameSubmission e st (msg_from m) (trim b))"
  by (auto simp add: handleMessage_def)

text \<open>The scenario is what the code does from the empty stores.\<close>

lemma scenario_pending:
  "handleMessage env0 init_state (text_from ''p1'' ''alice'')
   = (st_pending, Some (CodeSent ''alice'' ''482913''))"
  by (simp add: eval_defs scenario_defs)

lemma scenario_verified:
  "handleMessage (env0\<lparr>Date_now := 1000\<rparr>) st_pending (text_from ''p1'' ''482913'')
   = (st_verified, Some (VerificationSuccessful ''alice''))"
  by (simp add: eval_defs scenario_defs)

subsection \<open>Code submission\<close>

text \<open>
  What a matching code within the validity window does: it records the phone as verified
  and removes the pending entry, and then the reply depends on the ticket update.
\<close>

lemma matching_code_outcome:
  assumes "verifiedUsers st (msg_from m) = None"
    and "verificationCodes st (msg_from m) = Some sd"
    and "msg_body m = Some b" and "length (trim b) = 6" and "all_digits (trim b)"
    and "trim b = code sd"
    and "Date_now e - timestamp sd \<le> 600000"
  shows "verifiedUsers (fst (handleMessage e st m)) = (verifiedUsers st)(msg_from m \<mapsto> username sd)
       \<and> verificationCodes (fst (handleMessage e st m)) = (verificationCodes st)(msg_from m := None)
       \<and> snd (handleMessage e st m) =
           Some (if \<exists>t. pendingTickets st (username sd) = Some t \<and> truthy t
                        \<and> isl (tickets_update e t)
                 then CouldNotComplete else VerificationSuccessful (username sd))"
proof -
  have disp: "handleMessage e st m = sent (handleVerificationCode e st (msg_from m) (code sd))"
    using handleMessage_code [OF assms(1-5)] assms(6) by simp
  show ?thesis
    unfolding disp using assms(2,7)
    by (cases "pendingTickets st (username sd)")
       (auto simp: sent_def handleVerificationCode_def verificationCode_try_def Let_def
             split: sum.splits)
qed

text \<open>
  Claim C1: once the submitted code matches within the validity window, the user
  receives the success message whether the ticket update succeeds or throws. The code
  does not do this. \<open>axios.post(.../tickets/update)\<close> is awaited inside the \<open>try\<close>
  block of \<open>handleVerificationCode\<close>, after \<open>verifiedUsers.set\<close> and
  \<open>verificationCodes.delete\<close>; when it throws, the \<open>catch\<close> block sends
  "Could not complete verification. Please try again later" to a phone that is already
  verified, and the ticket stays in \<open>pendingTickets\<close>.
\<close>

theorem ticket_update_failure_reply:
  "handleMessage (env0\<lparr>Date_now := 1000, tickets_update := (\<lambda>t. Inl RequestError)\<rparr>)
     st_pending (text_from ''p1'' ''482913'')
   = (st_pending\<lparr>verifiedUsers := [''p1'' \<mapsto> ''alice''], verificationCodes := Map.empty\<rparr>,
      Some CouldNotComplete)"
  by (simp add: eval_defs scenario_defs)

text \<open>
  Claim C3, as stated: a matching code submitted when \<open>now - issuedAt\<close> is exactly 600000
  milliseconds is rejected as expired. It fails: the test of the source is
  \<open>Date.now() - storedData.timestamp > 600000\<close>, strict, so at exactly 600000 the code is
  still accepted.
\<close>

theorem expiry_boundary_counterexample:
  "handleMessage (env0\<lparr>Date_now := 600000\<rparr>) st_pending (text_from ''p1'' ''482913'')
   = (st_verified, Some (VerificationSuccessful ''alice''))"
  by (simp add: eval_defs scenario_defs)

text \<open>
  Claim C3, amended: for a pending phone, a six-digit code (matching or not) submitted
  when \<open>now - issuedAt\<close> is more than 600000 milliseconds gets the "expired, start over"
  reply, and the pending entry is deleted; nothing else changes. Up to and including
  600000 milliseconds the reply is not the "expired" one.
\<close>

theorem expired_code_rejected:
  assumes "verifiedUsers st (msg_from m) = None"
    and "verificationCodes st (msg_from m) = Some sd"
    and "msg_body m = Some b" and "length (trim b) = 6" and "all_digits (trim b)"
  shows "(Date_now e - timestamp sd > 600000 \<longrightarrow>
            handleMessage e st m
            = (st\<lparr>verificationCodes := (verificationCodes st)(msg_from m := None)\<rparr>,
               Some CodeExpired))
       \<and> (Date_now e - timestamp sd \<le> 600000 \<longrightarrow>
            snd (handleMessage e st m) \<noteq> Some CodeExpired)"
  unfolding handleMessage_code [OF assms] using assms(2)
  by (simp add: sent_def handleVerificationCode_def verificationCode_try_def Let_def
           split: sum.splits)

theorem expired_code_rejected_witness:
  "handleMessage (env0\<lparr>Date_now := 600001\<rparr>) st_pending (text_from ''p1'' ''482913'')
     = (st_pending\<lparr>verificationCodes := Map.empty\<rparr>, Some CodeExpired)
   \<and> snd (handleMessage (env0\<lparr>Date_now := 600000\<rparr>) st_pending (text_from ''p1'' ''482913''))
     \<noteq> Some CodeExpired"
proof -
  let ?sd = "\<lparr>code = ''482913'', username = ''alice'', timestamp = 0\<rparr>"
  let ?m = "text_from ''p1'' ''482913''"
  have tr: "trim ''482913'' = ''482913''" by (simp add: trim_def is_ws_def)
  have h1: "verifiedUsers st_pending (msg_from ?m) = None" by (simp add: scenario_defs)
  have h2: "verificationCodes st_pending (msg_from ?m) = Some ?sd" by (simp add: scenario_defs)
  have h3: "msg_body ?m = Some ''482913''" by (simp add: scenario_defs)
  have h4: "length (trim ''482913'') = 6" by (simp add: tr)
  have h5: "all_digits (trim ''482913'')" by (simp add: tr all_digits_def is_digit_def)
  have late: "Date_now (env0\<lparr>Date_now := 600001\<rparr>) - timestamp ?sd > 600000" by simp
  have edge: "Date_now (env0\<lparr>Date_now := 600000\<rparr>) - timestamp ?sd \<le> 600000" by simp
  note c = expired_code_rejected [OF h1 h2 h3 h4 h5]
  from c [of "env0\<lparr>Date_now := 600001\<rparr>"] late
  have "handleMessage (env0\<lparr>Date_now := 600001\<rparr>) st_pending ?m
        = (st_pending\<lparr>verificationCodes := (verificationCodes st_pending)(msg_from ?m := None)\<rparr>,
           Some CodeExpired)"
    by (simp only: simp_thms)
  then have a: "handleMessage (env0\<lparr>Date_now := 600001\<rparr>) st_pending ?m
        = (st_pending\<lparr>verificationCodes := Map.empty\<rparr>, Some CodeExpired)"
    by (simp add: scenario_defs)
  from c [of "env0\<lparr>Date_now := 600000\<rparr>"] edge
  have b: "snd (handleMessage (env0\<lparr>Date_now := 600000\<rparr>) st_pending ?m) \<noteq> Some CodeExpired"
    by (simp only: simp_thms)
  from a b show ?thesis by (rule conjI)
qed

text \<open>
  Claim C9: for a pending phone, a six-digit code that differs from the stored code,
  submitted while the stored code has not expired, leaves all three stores as they were
  (so the pending entry keeps its code, username and timestamp) and gets the
  "invalid code, try again" reply.
\<close>

theorem wrong_code_keeps_pending:
  assumes "verifiedUsers st (msg_from m) = None"
    and "verificationCodes st (msg_from m) = Some sd"
    and "msg_body m = Some b" and "length (trim b) = 6" and "all_digits (trim b)"
    and "trim b \<noteq> code sd"
    and "Date_now e - timestamp sd \<le> 600000"
  shows "handleMessage e st m = (st, Some InvalidCode)"
  unfolding handleMessage_code [OF assms(1-5)] using assms(2,6,7)
  by (simp add: sent_def handleVerificationCode_def verificationCode_try_def)

theorem wrong_code_keeps_pending_witness:
  "''482914'' \<noteq> code \<lparr>code = ''482913'', username = ''alice'', timestamp = 0\<rparr>
   \<and> handleMessage (env0\<lparr>Date_now := 600000\<rparr>) st_pending (text_from ''p1'' ''482914'')
     = (st_pending, Some InvalidCode)
   \<and> verificationCodes st_pending ''p1''
     = Some \<lparr>code = ''482913'', username = ''alice'', timestamp = 0\<rparr>"
proof -
  let ?sd = "\<lparr>code = ''482913'', username = ''alice'', timestamp = 0\<rparr>"
  let ?m = "text_from ''p1'' ''482914''"
  let ?e = "env0\<lparr>Date_now := 600000\<rparr>"
  have tr: "trim ''482914'' = ''482914''" by (simp add: trim_def is_ws_def)
  have h1: "verifiedUsers st_pending (msg_from ?m) = None" by (simp add: scenario_defs)
  have h2: "verificationCodes st_pending (msg_from ?m) = Some ?sd" by (simp add: scenario_defs)
  have h3: "msg_body ?m = Some ''482914''" by (simp add: scenario_defs)
  have h4: "length (trim ''482914'') = 6" by (simp add: tr)
  have h5: "all_digits (trim ''482914'')" by (simp add: tr all_digits_def is_digit_def)
  have h6: "trim ''482914'' \<noteq> code ?sd" by (simp add: tr)
  have h7: "Date_now ?e - timestamp ?sd \<le> 600000" by (simp add: scenario_defs)
  from wrong_code_keeps_pending [OF h1 h2 h3 h4 h5 h6 h7] h2
  show ?thesis by (simp add: scenario_defs)
qed

subsection \<open>Identifier submission\<close>

text \<open>When the \<open>try\<close> block of \<open>handleUsernameSubmission\<close> throws: the lookup throws, or a
  user is found and the ticket creation throws, answers a non-zero error code or carries
  no \<open>data\<close>.\<close>

lemma usernameSubmission_try_throws_iff:
  "(\<exists>err. snd (usernameSubmission_try e st phone uname) = Inl err) \<longleftrightarrow>
     isl (users_get e)
     \<or> (\<exists>lst usr. users_get e = Inr lst
           \<and> find (\<lambda>u. user_username u = uname \<or> user_email u = uname) lst = Some usr
           \<and> (case tickets_add e (user_username usr) of
                 Inl err \<Rightarrow> True
               | Inr resp \<Rightarrow> t_error_code resp \<noteq> JNum 0 \<or> t_data resp = None))"
proof (cases "users_get e")
  case (Inl err)
  then show ?thesis by (simp add: usernameSubmission_try_def)
next
  case (Inr lst)
  show ?thesis
  proof (cases "find (\<lambda>u. user_username u = uname \<or> user_email u = uname) lst")
    case None
    with Inr show ?thesis by (simp add: usernameSubmission_try_def)
  next
    case (Some usr)
    with Inr show ?thesis
      by (cases "tickets_add e (user_username usr)"; cases "t_data (projr (tickets_add e (user_username usr)))")
         (simp_all add: usernameSubmission_try_def Let_def)
  qed
qed

lemma usernameSubmission_reply_cases:
  "snd (handleUsernameSubmission e st phone uname) = UsernameNotFound
   \<or> snd (handleUsernameSubmission e st phone uname) = CouldNotInitiate
   \<or> (\<exists>u. snd (handleUsernameSubmission e st phone uname) = CodeSent u (verificationCode (random_draw e)))"
  by (auto simp: handleUsernameSubmission_def usernameSubmission_try_def Let_def
           split: sum.splits option.splits)

lemma usernameSubmission_success_state:
  "handleUsernameSubmission e st phone uname = (st', CodeSent u c) \<Longrightarrow>
   verificationCodes st' phone = Some \<lparr>code = c, username = u, timestamp = Date_now e\<rparr>
   \<and> c = verificationCode (random_draw e)"
  by (auto simp: handleUsernameSubmission_def usernameSubmission_try_def Let_def
           split: sum.splits option.splits if_splits)

lemma usernameSubmission_unchanged:
  "(\<exists>u c. snd (handleUsernameSubmission e st phone uname) = CodeSent u c)
   \<or> fst (handleUsernameSubmission e st phone uname) = st"
  by (auto simp: handleUsernameSubmission_def usernameSubmission_try_def Let_def
           split: sum.splits option.splits)

text \<open>No path of \<open>handleMessage\<close> sends the "no active verification request" reply.\<close>

lemma order_try_reply: "order_try e i = Inr r \<Longrightarrow> r \<noteq> NoActiveRequest"
  by (auto simp: order_try_def split: sum.splits if_splits option.splits)

lemma handleVerifiedUser_reply: "snd (handleVerifiedUser e st phone msg) \<noteq> NoActiveRequest"
  by (auto simp: handleVerifiedUser_def Let_def dest: order_try_reply split: list.splits sum.splits)

lemma handleVerificationCode_reply:
  "verificationCodes st phone = Some sd \<Longrightarrow>
   snd (handleVerificationCode e st phone c) \<noteq> NoActiveRequest"
  by (auto simp: handleVerificationCode_def verificationCode_try_def Let_def split: sum.splits)

lemma handleMessage_never_NoActiveRequest:
  "snd (handleMessage e st m) \<noteq> Some NoActiveRequest"
  using usernameSubmission_reply_cases
          [of e st "msg_from m" "trim (case msg_body m of None \<Rightarrow> [] | Some b \<Rightarrow> b)"]
  by (auto simp: handleMessage_def Let_def sent_def handleVerifiedUser_reply
        handleVerificationCode_reply)

text \<open>
  Claim C6: if an exception is raised while an identifier submission is handled (by the
  user lookup or by the ticket creation), the three stores are unchanged, so no
  \<open>verificationCodes\<close> entry is written, and the reply is the generic
  "could not initiate, try again later" message.
\<close>

theorem failed_submission_keeps_state:
  assumes "snd (usernameSubmission_try e st phone uname) = Inl err"
  shows "handleUsernameSubmission e st phone uname = (st, CouldNotInitiate)"
  using assms
  by (auto simp: handleUsernameSubmission_def usernameSubmission_try_def Let_def
           split: sum.splits option.splits if_splits)

theorem failed_submission_keeps_state_witness:
  "snd (usernameSubmission_try
          (env0\<lparr>tickets_add := (\<lambda>u. Inr \<lparr>t_error_code = JNum 1,
                                           t_error_message = JStr ''denied'', t_data = None\<rparr>)\<rparr>)
          init_state ''p1'' ''alice'') = Inl (ApiError (JStr ''denied''))
   \<and> handleUsernameSubmission
          (env0\<lparr>tickets_add := (\<lambda>u. Inr \<lparr>t_error_code = JNum 1,
                                           t_error_message = JStr ''denied'', t_data = None\<rparr>)\<rparr>)
          init_state ''p1'' ''alice'' = (init_state, CouldNotInitiate)"
proof -
  let ?e = "env0\<lparr>tickets_add := (\<lambda>u. Inr \<lparr>t_error_code = JNum 1,
                                           t_error_message = JStr ''denied'', t_data = None\<rparr>)\<rparr>"
  have h: "snd (usernameSubmission_try ?e init_state ''p1'' ''alice'')
           = Inl (ApiError (JStr ''denied''))"
    by (simp add: usernameSubmission_try_def scenario_defs)
  from h failed_submission_keeps_state [OF h] show ?thesis by (rule conjI)
qed

text \<open>
  Claim C4, as stated: an unverified phone with no pending entry that sends six digits
  gets the "no active verification request" reply and no state is created. It fails:
  \<open>handleMessage\<close> takes a message for a code only when \<open>verificationCodes.has(phone)\<close>,
  so these six digits are looked up as a username. With a user of that name the lookup
  succeeds, a pending entry and a ticket are stored and a code is sent.
\<close>

theorem digits_without_pending_counterexample:
  "handleMessage (env0\<lparr>users_get := Inr [\<lparr>user_username = ''123456'', user_email = ''n@example.com''\<rparr>]\<rparr>)
     init_state (text_from ''p1'' ''123456'')
   = (\<lparr>verificationCodes = [''p1'' \<mapsto> \<lparr>code = ''482913'', username = ''123456'', timestamp = 0\<rparr>],
       verifiedUsers = Map.empty,
       pendingTickets = [''123456'' \<mapsto> JStr ''T1'']\<rparr>,
      Some (CodeSent ''123456'' ''482913''))"
  by (simp add: eval_defs scenario_defs)

text \<open>
  Claim C4, amended: if an unverified phone with no pending entry sends a message whose
  trimmed text is six digits, the message is handled as an identifier submission: the
  result is that of \<open>handleUsernameSubmission\<close> on the trimmed text. The reply is not
  the "no active verification request" message. When the reply is the code message, the
  pending entry of the phone has been stored; with any other reply the stores are
  unchanged.
\<close>

theorem digits_without_pending_is_username:
  assumes "verifiedUsers st (msg_from m) = None"
    and "verificationCodes st (msg_from m) = None"
    and "msg_body m = Some b" and "length (trim b) = 6" and "all_digits (trim b)"
  shows "handleMessage e st m = sent (handleUsernameSubmission e st (msg_from m) (trim b))
       \<and> snd (handleMessage e st m) \<noteq> Some NoActiveRequest
       \<and> (\<forall>u c. snd (handleMessage e st m) = Some (CodeSent u c) \<longrightarrow>
             verificationCodes (fst (handleMessage e st m)) (msg_from m)
               = Some \<lparr>code = c, username = u, timestamp = Date_now e\<rparr>)
       \<and> ((\<forall>u c. snd (handleMessage e st m) \<noteq> Some (CodeSent u c)) \<longrightarrow>
             fst (handleMessage e st m) = st)"
proof -
  let ?r = "handleUsernameSubmission e st (msg_from m) (trim b)"
  from assms(4) have ne: "trim b \<noteq> []" by auto
  have disp: "handleMessage e st m = sent ?r"
    using handleMessage_username [OF assms(1) _ assms(3) ne] assms(2) by simp
  from usernameSubmission_reply_cases [of e st "msg_from m" "trim b"]
  have no: "snd ?r \<noteq> NoActiveRequest" by auto
  have made: "verificationCodes (fst ?r) (msg_from m)
               = Some \<lparr>code = c, username = u, timestamp = Date_now e\<rparr>"
    if "snd ?r = CodeSent u c" for u c
    using usernameSubmission_success_state [of e st "msg_from m" "trim b" "fst ?r" u c] that
    by (cases ?r) simp
  have same: "fst ?r = st" if "\<forall>u c. snd ?r \<noteq> CodeSent u c"
    using that usernameSubmission_unchanged [of e st "msg_from m" "trim b"] by auto
  from no made same show ?thesis unfolding disp sent_def by simp
qed

theorem digits_without_pending_is_username_witness:
  "verificationCodes init_state ''p1'' = None
   \<and> trim ''123456'' = ''123456''
   \<and> handleMessage env0 init_state (text_from ''p1'' ''123456'')
     = sent (handleUsernameSubmission env0 init_state ''p1'' ''123456'')
   \<and> snd (handleMessage env0 init_state (text_from ''p1'' ''123456'')) \<noteq> Some NoActiveRequest
   \<and> fst (handleMessage env0 init_state (text_from ''p1'' ''123456'')) = init_state"
proof -
  let ?m = "text_from ''p1'' ''123456''"
  have tr: "trim ''123456'' = ''123456''" by (simp add: trim_def is_ws_def)
  have h1: "verifiedUsers init_state (msg_from ?m) = None" by (simp add: scenario_defs)
  have h2: "verificationCodes init_state (msg_from ?m) = None" by (simp add: scenario_defs)
  have h3: "msg_body ?m = Some ''123456''" by (simp add: scenario_defs)
  have h4: "length (trim ''123456'') = 6" by (simp add: tr)
  have h5: "all_digits (trim ''123456'')" by (simp add: tr all_digits_def is_digit_def)
  have mf: "msg_from ?m = ''p1''" by (simp add: text_from_def)
  note c = digits_without_pending_is_username [OF h1 h2 h3 h4 h5, of env0, unfolded mf tr]
  have r: "snd (sent (handleUsernameSubmission env0 init_state ''p1'' ''123456''))
           = Some UsernameNotFound"
    by (simp add: sent_def handleUsernameSubmission_def usernameSubmission_try_def scenario_defs)
  from c have d: "handleMessage env0 init_state ?m
                  = sent (handleUsernameSubmission env0 init_state ''p1'' ''123456'')"
    by (rule conjunct1)
  from d r have s: "snd (handleMessage env0 init_state ?m) = Some UsernameNotFound" by simp
  from c [THEN conjunct2, THEN conjunct2, THEN conjunct2] s
  have same: "fst (handleMessage env0 init_state ?m) = init_state" by simp
  from s have no: "snd (handleMessage env0 init_state ?m) \<noteq> Some NoActiveRequest" by simp
  from h2 [unfolded mf] tr d no same show ?thesis by (intro conjI)
qed

text \<open>
  Claim C7, as stated: for a phone with a pending entry, every non-empty inbound message
  that is not a six-character all-digit string is handled as a fresh identifier
  submission. It fails on the bodies that trimming changes: \<open>handleMessage\<close> tests the
  trimmed text. The eight characters of the code between two spaces are handled as a
  code submission (as an identifier they would not be found), and a body of three spaces
  is not handled at all.
\<close>

theorem untrimmed_body_counterexample:
  "'' 482913 '' \<noteq> [] \<and> length '' 482913 '' = 8
   \<and> handleMessage (env0\<lparr>Date_now := 1000\<rparr>) st_pending (text_from ''p1'' '' 482913 '')
     = (st_verified, Some (VerificationSuccessful ''alice''))
   \<and> handleUsernameSubmission (env0\<lparr>Date_now := 1000\<rparr>) st_pending ''p1'' '' 482913 ''
     = (st_pending, UsernameNotFound)
   \<and> ''   '' \<noteq> [] \<and> length ''   '' = 3
   \<and> handleMessage env0 st_pending (text_from ''p1'' ''   '') = (st_pending, None)"
  by (simp add: eval_defs scenario_defs)

text \<open>
  Claim C7, amended: for a phone with a pending entry, a message whose trimmed text is
  not empty and is not a six-character all-digit string is handled as a fresh identifier
  submission; when that submission succeeds (a code is sent), the entry of the phone is
  the new one (the new code, the user found, the current time), whatever the age of the
  old entry.
\<close>

theorem pending_text_is_new_submission:
  assumes "verifiedUsers st (msg_from m) = None"
    and "verificationCodes st (msg_from m) = Some old"
    and "msg_body m = Some b" and "trim b \<noteq> []"
    and "\<not> (length (trim b) = 6 \<and> all_digits (trim b))"
  shows "handleMessage e st m = sent (handleUsernameSubmission e st (msg_from m) (trim b))
       \<and> (\<forall>u c. snd (handleMessage e st m) = Some (CodeSent u c) \<longrightarrow>
             verificationCodes (fst (handleMessage e st m)) (msg_from m)
               = Some \<lparr>code = c, username = u, timestamp = Date_now e\<rparr>
             \<and> c = verificationCode (random_draw e))"
proof -
  have disp: "handleMessage e st m = sent (handleUsernameSubmission e st (msg_from m) (trim b))"
    using handleMessage_username [OF assms(1) _ assms(3,4)] assms(5) by simp
  show ?thesis
    unfolding disp sent_def
    using usernameSubmission_success_state [of e st "msg_from m" "trim b"]
    by (cases "handleUsernameSubmission e st (msg_from m) (trim b)") simp
qed

theorem pending_text_is_new_submission_witness:
  "verificationCodes st_pending ''p1''
     = Some \<lparr>code = ''482913'', username = ''alice'', timestamp = 0\<rparr>
   \<and> trim ''alice@example.com'' = ''alice@example.com''
   \<and> snd (handleMessage (env0\<lparr>random_draw := 7, Date_now := 5000\<rparr>) st_pending
            (text_from ''p1'' ''alice@example.com'')) = Some (CodeSent ''alice'' ''100007'')
   \<and> verificationCodes (fst (handleMessage (env0\<lparr>random_draw := 7, Date_now := 5000\<rparr>) st_pending
            (text_from ''p1'' ''alice@example.com''))) ''p1''
     = Some \<lparr>code = ''100007'', username = ''alice'', timestamp = 5000\<rparr>"
proof -
  let ?sd = "\<lparr>code = ''482913'', username = ''alice'', timestamp = 0\<rparr>"
  let ?m = "text_from ''p1'' ''alice@example.com''"
  let ?e = "env0\<lparr>random_draw := 7, Date_now := 5000\<rparr>"
  have tr: "trim ''alice@example.com'' = ''alice@example.com''" by (simp add: trim_def is_ws_def)
  have h1: "verifiedUsers st_pending (msg_from ?m) = None" by (simp add: scenario_defs)
  have h2: "verificationCodes st_pending (msg_from ?m) = Some ?sd" by (simp add: scenario_defs)
  have h3: "msg_body ?m = Some ''alice@example.com''" by (simp add: scenario_defs)
  have h4: "trim ''alice@example.com'' \<noteq> []" by (simp add: tr)
  have h5: "\<not> (length (trim ''alice@example.com'') = 6 \<and> all_digits (trim ''alice@example.com''))"
    by (simp add: tr)
  have r: "snd (sent (handleUsernameSubmission ?e st_pending ''p1'' ''alice@example.com''))
           = Some (CodeSent ''alice'' ''100007'')"
    by (simp add: sent_def handleUsernameSubmission_def usernameSubmission_try_def
          verificationCode_def randomInt_def digit_char_def Let_def scenario_defs)
  have mf: "msg_from ?m = ''p1''" by (simp add: text_from_def)
  note c = pending_text_is_new_submission [OF h1 h2 h3 h4 h5, of ?e, unfolded mf tr]
  from c r have s: "snd (handleMessage ?e st_pending ?m) = Some (CodeSent ''alice'' ''100007'')"
    by simp
  with c have "verificationCodes (fst (handleMessage ?e st_pending ?m)) ''p1''
                 = Some \<lparr>code = ''100007'', username = ''alice'', timestamp = Date_now ?e\<rparr>"
    by blast
  then have "verificationCodes (fst (handleMessage ?e st_pending ?m)) ''p1''
                 = Some \<lparr>code = ''100007'', username = ''alice'', timestamp = 5000\<rparr>"
    by (simp add: env0_def)
  with s tr h2 [unfolded mf] show ?thesis by blast
qed

subsection \<open>Commands of a verified user\<close>

lemma bare_order_command:
  assumes "verifiedUsers st (msg_from m) = Some u"
    and "msg_body m = Some b" and "trim b = ''/order''"
  shows "handleMessage e st m = (st, Some (Hello (JStr u)))"
  unfolding handleMessage_verified [OF assms(1)] using assms
  by (simp add: sent_def handleVerifiedUser_def toLowerCase_def lower_char_def startsWith_def)

text \<open>
  Claim C8 has a verified user who sends \<open>/order\<close> with no order id receive the usage
  error. The code sends the default greeting: the text is trimmed, so it never ends with
  a space, and the order branch is entered only when the text starts with \<open>/order\<close>
  followed by a space.
\<close>

theorem order_without_id_greets:
  "handleMessage env0 st_verified (text_from ''p1'' ''/order'')
   = (st_verified, Some (Hello (JStr ''alice'')))"
  by (simp add: eval_defs scenario_defs)

text \<open>
  The usage error is sent when two spaces follow the command, although an id is given:
  \<open>split(' ')[1]\<close> is then the empty string. With one space the id is what stands
  between the first and the second space.
\<close>

lemma order_double_space_usage:
  "handleMessage env0 st_verified (text_from ''p1'' ''/order  12345'')
   = (st_verified, Some OrderUsage)"
  by (simp add: eval_defs scenario_defs)

lemma order_with_id_fetches:
  "handleMessage
     (env0\<lparr>orders_get := (\<lambda>i. if i = ''12345''
                then Inr \<lparr>o_error_code = JNum 0, o_error_message = JUndefined,
                          o_data = Some \<lparr>order_id = JNum 12345, service_name = JStr ''Likes'',
                                          order_status = JStr ''Completed'', quantity = JNum 100,
                                          remains = JNum 0, created = JStr ''2024-01-01'',
                                          link = JNull\<rparr>\<rparr>
                else Inl RequestError)\<rparr>)
     st_verified (text_from ''p1'' ''/ORDER 12345 now'')
   = (st_verified,
      Some (OrderStatus (JNum 12345) (JStr ''Likes'') (JStr ''Completed'') (JNum 100) (JNum 0)
              (JStr ''2024-01-01'') (JStr ''N/A'')))"
  by (simp add: eval_defs scenario_defs char_of_eq_iff take_bit_eq_mod)

subsection \<open>Trimming\<close>






subsection \<open>The two stores of a phone\<close>

text \<open>
  A handler that nothing interrupts is \<open>handleMessage\<close>: started and resumed to its end
  in one environment, the pieces give the stores and the reply of the function above.
\<close>

lemma finish_handleVerifiedUser:
  "finish e (handleVerifiedUser_start st phone msg) = sent (handleVerifiedUser e st phone msg)"
  by (simp add: handleVerifiedUser_start_def handleVerifiedUser_def sent_def Let_def
           split: list.splits sum.splits)

lemma finish_handleVerificationCode:
  "finish e (handleVerificationCode_start e st phone c) = sent (handleVerificationCode e st phone c)"
  by (simp add: handleVerificationCode_start_def handleVerificationCode_def
        verificationCode_try_def sent_def Let_def
           split: option.splits sum.splits)

lemma finish_handleUsernameSubmission:
  "finish e (st, Suspended (AwaitUsers phone uname)) = sent (handleUsernameSubmission e st phone uname)"
  by (simp add: handleUsernameSubmission_def usernameSubmission_try_def sent_def Let_def
           split: option.splits sum.splits)

lemma finish_start: "finish e (start e st m) = handleMessage e st m"
  by (auto simp del: finish.simps
           simp add: finish.simps(1) start_def handleMessage_def Let_def finish_handleVerifiedUser
             finish_handleVerificationCode finish_handleUsernameSubmission)


lemma onMessage_uninterrupted:
  "onMessage e st m = (if isGroupMsg m then (st, None) else finish e (start e st m))"
  by (simp add: onMessage_def finish_start)

text \<open>Every beginning of a schedule without interleaving on a phone is such a schedule.\<close>

lemma serial_prefix: "serial s (evs @ evs') \<Longrightarrow> serial s evs"
proof (induction evs arbitrary: s)
  case Nil
  then show ?case by simp
next
  case (Cons ev evs)
  then show ?case by (cases ev) simp_all
qed













lemma serial_scenario:
  "exec (init_state, [])
     [Arrive env0 (text_from ''p1'' ''alice''), Resume env0 0, Resume env0 0] = (st_pending, [])"
  by (simp add: task_defs scenario_defs)




end
